theory Spec2Isabelle
  imports
    Complex_Main
    "HOL-Library.Multiset"
    "HOL-Library.Char_ord"
    "HOL-Library.List_Lexorder"
    "HOL-Library.Product_Lexorder"
begin

section \<open>Python text and values\<close>

text \<open>
  Python \<open>str\<close> values are modelled as \<^typ>\<open>string\<close>; a \<^typ>\<open>char\<close> stands for a
  code point below 256. \<open>str.strip()\<close> without arguments removes the characters for
  which \<open>str.isspace\<close> holds; below 256 these are the code points 9 to 13, 28 to 32,
  133 and 160.
\<close>

definition isspace :: "char \<Rightarrow> bool" where
  "isspace c = (of_char c \<in> {9::nat, 10, 11, 12, 13, 28, 29, 30, 31, 32, 133, 160})"

definition lstrip :: "string \<Rightarrow> string" where
  "lstrip s = dropWhile isspace s"

definition rstrip :: "string \<Rightarrow> string" where
  "rstrip s = rev (dropWhile isspace (rev s))"

definition strip :: "string \<Rightarrow> string" where
  "strip s = rstrip (lstrip s)"

text \<open>\<open>s.find(c)\<close> and \<open>s.rfind(c)\<close> for a one-character pattern: the lowest and the
  highest index of \<open>c\<close>, or \<open>-1\<close>.\<close>

fun find_char :: "char \<Rightarrow> string \<Rightarrow> int" where
  "find_char c [] = - 1"
| "find_char c (x # xs) =
     (if x = c then 0
      else (let i = find_char c xs in if i = - 1 then - 1 else i + 1))"

fun rfind_char :: "char \<Rightarrow> string \<Rightarrow> int" where
  "rfind_char c [] = - 1"
| "rfind_char c (x # xs) =
     (let i = rfind_char c xs
      in if i \<noteq> - 1 then i + 1 else if x = c then 0 else - 1)"

text \<open>The slice \<open>s[i:j]\<close>: a negative bound counts from the end, and both bounds are
  clamped to the length.\<close>

definition py_slice :: "'a list \<Rightarrow> int \<Rightarrow> int \<Rightarrow> 'a list" where
  "py_slice s i j =
     (let n = int (length s);
          a = (if i < 0 then max 0 (i + n) else min i n);
          b = (if j < 0 then max 0 (j + n) else min j n)
      in drop (nat a) (take (nat b) s))"

text \<open>\<open>sub in s\<close> on two strings: \<open>sub\<close> occurs in \<open>s\<close> as a contiguous run.\<close>

fun startswith :: "string \<Rightarrow> string \<Rightarrow> bool" where
  "startswith s [] = True"
| "startswith [] (p # ps) = False"
| "startswith (c # cs) (p # ps) = (c = p \<and> startswith cs ps)"

fun str_contains :: "string \<Rightarrow> string \<Rightarrow> bool" where
  "str_contains [] sub = (sub = [])"
| "str_contains (c # cs) sub = (startswith (c # cs) sub \<or> str_contains cs sub)"

text \<open>\<open>s.replace('\\', '\\\\')\<close>: every backslash becomes two.\<close>

definition backslash :: char where
  "backslash = CHR 0x5C"

definition replace_backslash :: "string \<Rightarrow> string" where
  "replace_backslash s = concat (map (\<lambda>c. if c = backslash then [c, c] else [c]) s)"

text \<open>
  The values \<open>json.loads\<close> produces. Numbers are rationals (the rounding of floats is
  not modelled); an object is the list of its members, each key once.
\<close>

datatype json =
    JNull
  | JBool bool
  | JNum rat
  | JStr string
  | JArr "json list"
  | JObj "(string \<times> json) list"

text \<open>Python's truth value of such a value (\<open>if v\<close>, \<open>not v\<close>).\<close>

fun truthy :: "json \<Rightarrow> bool" where
  "truthy JNull = False"
| "truthy (JBool b) = b"
| "truthy (JNum r) = (r \<noteq> 0)"
| "truthy (JStr s) = (s \<noteq> [])"
| "truthy (JArr xs) = (xs \<noteq> [])"
| "truthy (JObj kvs) = (kvs \<noteq> [])"

text \<open>The exceptions that the code raises or catches, by class.\<close>

datatype exn =
    TypeError
  | AttributeError
  | KeyError
  | ValueError string
  | JSONDecodeError
  | APIError string


section \<open>The tabular-data engine\<close>

text \<open>
  A \<open>DataFrame\<close> as the code uses it: the column labels (strings, each once, as
  \<open>read_csv\<close> makes them), for each label whether \<open>pd.api.types.is_numeric_dtype\<close>
  holds of the column, and the rows, each giving the cell under a label. A cell is a
  number, a string or missing.
\<close>

datatype cell = Num rat | Str string | NaN

record dataframe =
  columns :: "string list"
  is_numeric_dtype :: "string \<Rightarrow> bool"
  rows :: "(string \<Rightarrow> cell) list"

text \<open>\<open>to_json(orient='records')\<close> read back by \<open>json.loads\<close>: a missing cell is \<open>null\<close>.\<close>

fun cell_json :: "cell \<Rightarrow> json" where
  "cell_json (Num r) = JNum r"
| "cell_json (Str s) = JStr s"
| "cell_json NaN = JNull"

text \<open>
  \<open>groupby(x)\<close> drops the rows whose key is missing and orders the groups by key:
  numbers by value, strings by code point, numbers before strings.
\<close>

fun cell_key :: "cell \<Rightarrow> nat \<times> rat \<times> string" where
  "cell_key (Num r) = (0, r, [])"
| "cell_key (Str s) = (1, 0, s)"
| "cell_key NaN = (2, 0, [])"

definition group_keys :: "dataframe \<Rightarrow> string \<Rightarrow> cell list" where
  "group_keys df x =
     sort_key cell_key (remdups (filter (\<lambda>v. v \<noteq> NaN) (map (\<lambda>r. r x) (rows df))))"

definition group_of :: "dataframe \<Rightarrow> string \<Rightarrow> cell \<Rightarrow> (string \<Rightarrow> cell) list" where
  "group_of df x k = filter (\<lambda>r. r x = k) (rows df)"

text \<open>\<open>sum()\<close> of a group skips missing cells.\<close>

fun num_of :: "cell \<Rightarrow> rat" where
  "num_of (Num r) = r"
| "num_of (Str s) = 0"
| "num_of NaN = 0"

definition groupby_size :: "dataframe \<Rightarrow> string \<Rightarrow> (cell \<times> nat) list" where
  "groupby_size df x = map (\<lambda>k. (k, length (group_of df x k))) (group_keys df x)"

definition groupby_sum :: "dataframe \<Rightarrow> string \<Rightarrow> string \<Rightarrow> (cell \<times> rat) list" where
  "groupby_sum df x y =
     map (\<lambda>k. (k, sum_list (map (\<lambda>r. num_of (r y)) (group_of df x k)))) (group_keys df x)"

text \<open>The projection \<open>df[[a, b]]\<close> of the rows, as records.\<close>

definition records_of :: "string list \<Rightarrow> (string \<Rightarrow> cell) list \<Rightarrow> json list" where
  "records_of labels rs = map (\<lambda>r. JObj (map (\<lambda>l. (l, cell_json (r l))) labels)) rs"

section \<open>The collaborators\<close>

text \<open>
  One call of \<open>client.chat.completions.create\<close>, read back as
  \<open>choices[0].message.content\<close>: the call raises (the text is \<open>str(e)\<close>), or it
  returns a message whose content is a string or \<open>None\<close>.
\<close>

record completion_request =
  system_content :: string
  user_content :: string
  model :: string
  temperature :: rat

datatype llm_reply = ApiFailure string | Content "string option"

text \<open>
  What the interpreter started on a script does: it exits after some seconds with a
  return code and its two captured streams, it never exits, or \<open>subprocess.run\<close> fails
  for another reason (the text is \<open>str(e)\<close>).
\<close>

datatype child = Exits rat int string string | Hangs | Fails string

text \<open>
  Everything outside the two handlers:
  \<^item> the language model, \<open>urllib.parse.unquote\<close>, and \<open>json.loads\<close> (\<open>None\<close> where it
    raises);
  \<^item> the error of opening the scratch file for writing, if there is one, and the
    behaviour of the interpreter on a script text;
  \<^item> the order in which \<open>df.sample\<close> draws the rows;
  \<^item> \<open>os.path.join\<close> and \<open>os.path.abspath\<close>; \<open>file.save\<close> followed by \<open>pd.read_csv\<close>,
    from the path and the uploaded bytes to the frame, or the text of the exception;
    the frame prepared for the prompts (lines 238 to 245), or the text of the
    exception; \<open>df.info()\<close> and \<open>df.head().to_string()\<close>.
\<close>

record world =
  llm :: "completion_request \<Rightarrow> llm_reply"
  unquote :: "string \<Rightarrow> string"
  json_loads :: "string \<Rightarrow> json option"
  open_error :: "string option"
  child :: "string \<Rightarrow> child"
  shuffle :: "(string \<Rightarrow> cell) list \<Rightarrow> (string \<Rightarrow> cell) list"
  path_join :: "string \<Rightarrow> string \<Rightarrow> string"
  abspath :: "string \<Rightarrow> string"
  save_and_read_csv :: "string \<Rightarrow> string \<Rightarrow> string + dataframe"
  simple_df_of :: "dataframe \<Rightarrow> string + dataframe"
  info :: "dataframe \<Rightarrow> string"
  head_to_string :: "dataframe \<Rightarrow> string"

section \<open>Session state\<close>

text \<open>
  The two module globals, the scratch file \<open>temp_chat_script.py\<close> of the temporary
  directory (\<open>None\<close> while it does not exist) and the requests sent to the model so far.
\<close>

record server =
  last_uploaded_filepath :: "string option"
  csv_column_names :: string
  temp_chat_script :: "string option"
  requests_sent :: "completion_request list"

section \<open>The chart data extractor\<close>

text \<open>\<open>recipe.get(k)\<close> on a dictionary: the member, or \<open>None\<close>.\<close>

definition dict_get :: "(string \<times> json) list \<Rightarrow> string \<Rightarrow> json" where
  "dict_get kvs k = (case map_of kvs k of None \<Rightarrow> JNull | Some v \<Rightarrow> v)"

text \<open>\<open>v in df.columns\<close>: the index hashes \<open>v\<close> first, which raises on a list or a
  dictionary; the labels are strings, so no other value is among them.\<close>

fun in_columns :: "dataframe \<Rightarrow> json \<Rightarrow> exn + bool" where
  "in_columns df (JStr s) = Inr (s \<in> set (columns df))"
| "in_columns df (JArr xs) = Inl TypeError"
| "in_columns df (JObj kvs) = Inl TypeError"
| "in_columns df v = Inr False"

text \<open>\<open>"Count of" in v\<close>: a substring test on a string, membership on a list or a
  dictionary, and a \<open>TypeError\<close> on a number, a truth value or \<open>None\<close>.\<close>

fun count_of_in :: "json \<Rightarrow> exn + bool" where
  "count_of_in (JStr s) = Inr (str_contains s ''Count of'')"
| "count_of_in (JArr xs) = Inr (JStr ''Count of'' \<in> set xs)"
| "count_of_in (JObj kvs) = Inr (''Count of'' \<in> set (map fst kvs))"
| "count_of_in v = Inl TypeError"

text \<open>
  The \<open>try\<close> block of \<open>prepare_chart_data\<close> (lines 62 to 84): every exception raised in
  it is caught there and gives \<open>None\<close>. The engine raises
  \<^item> on a label that is not a string or not a column (\<open>KeyError\<close>),
  \<^item> in \<open>reset_index\<close> when the label to insert is already a column (the key column is
    \<open>Count\<close>, or the summed column is the key column),
  \<^item> in \<open>to_json(orient='records')\<close> when two columns have the same label.
\<close>

definition chart_records ::
  "world \<Rightarrow> dataframe \<Rightarrow> json \<Rightarrow> json \<Rightarrow> json \<Rightarrow> json list option" where
  "chart_records w df chart_type x_col y_col =
     (case (x_col, y_col) of
        (JStr x, JStr y) \<Rightarrow>
          if chart_type \<in> set [JStr ''Bar Chart'', JStr ''Pie Chart'', JStr ''Line Chart''] then
            if str_contains y ''Count of'' then
              if x \<notin> set (columns df) \<or> x = ''Count'' \<or> x = y then None
              else Some (map (\<lambda>(k, n). JObj [(x, cell_json k), (y, JNum (of_nat n))])
                           (groupby_size df x))
            else if y \<notin> set (columns df) then None
            else if is_numeric_dtype df y then
              if x \<notin> set (columns df) \<or> x = y then None
              else Some (map (\<lambda>(k, v). JObj [(x, cell_json k), (y, JNum v)])
                           (groupby_sum df x y))
            else None
          else if chart_type = JStr ''Scatter Plot'' then
            (let sample_df = take (min 500 (length (rows df))) (shuffle w (rows df))
             in if x \<notin> set (columns df) \<or> y \<notin> set (columns df) \<or> x = y then None
                else Some (records_of [x, y] sample_df))
          else if chart_type = JStr ''Histogram'' then
            if x \<notin> set (columns df) then None else Some (records_of [x] (rows df))
          else None
      | _ \<Rightarrow> None)"

text \<open>
  \<open>prepare_chart_data\<close>: \<open>Inl\<close> is an exception that reaches the caller, \<open>Inr None\<close> the
  returned \<open>None\<close>, \<open>Inr (Some records)\<close> the returned list. The recipe is any value
  \<open>json.loads\<close> can produce; \<open>.get\<close> exists on a dictionary only.
\<close>

definition prepare_chart_data :: "world \<Rightarrow> dataframe \<Rightarrow> json \<Rightarrow> exn + json list option" where
  "prepare_chart_data w df recipe =
     (case recipe of
        JObj kvs \<Rightarrow>
          (let chart_type = dict_get kvs ''chart_type'';
               x_col = dict_get kvs ''x_column'';
               y_col = dict_get kvs ''y_column''
           in if \<not> truthy x_col \<or> \<not> truthy y_col then Inr None
              else
                (case in_columns df x_col of
                   Inl e \<Rightarrow> Inl e
                 | Inr x_in \<Rightarrow>
                     if \<not> x_in then Inr None
                     else
                       (case in_columns df y_col of
                          Inl e \<Rightarrow> Inl e
                        | Inr y_in \<Rightarrow>
                            if y_in then Inr (chart_records w df chart_type x_col y_col)
                            else
                              (case count_of_in y_col of
                                 Inl e \<Rightarrow> Inl e
                               | Inr marker \<Rightarrow>
                                   if \<not> marker then Inr None
                                   else Inr (chart_records w df chart_type x_col y_col)))))
      | _ \<Rightarrow> Inl AttributeError)"

section \<open>The analysis planner\<close>

definition json_system_content :: string where
  "json_system_content = ''You are a data analyst that only responds in valid JSON.''"

definition charts_prompt :: \<open>string \<Rightarrow> string \<Rightarrow> string\<close> where
  \<open>charts_prompt data_schema_info first_5_rows = concat
    [''\<newline>'',
     ''    You are a helpful data analyst. A user has uploaded a CSV file.\<newline>'',
     ''    Your job is to suggest the best visualizations for a dashboard.\<newline>'',
     ''    Here is the data schema information from pandas `df.info()`:\<newline>'',
     ''    ---\<newline>'',
     ''    '',
     data_schema_info,
     ''\<newline>'',
     ''    ---\<newline>'',
     ''    Here are the first 5 rows of data for context:\<newline>'',
     ''    ---\<newline>'',
     ''    '',
     first_5_rows,
     ''\<newline>'',
     ''    ---\<newline>'',
     ''    Based *only* on this information, please suggest up to 15 useful v'',
     ''isualizations (if possible, otherwise fewer).\<newline>'',
     ''    For each visualization, provide:\<newline>'',
     ''    1.  A short, clear `title` (e.g., "Total Sales by Region").\<newline>'',
     ''    2.  The best `chart_type` (e.g., "Bar Chart", "Line Chart", "Scatt'',
     ''er Plot", "Pie Chart", "Histogram").\<newline>'',
     ''    3.  The `x_column` to use (the exact column name).\<newline>'',
     ''    4.  The `y_column` to use (e.g., "Sales", "Profit", or "Count of O'',
     ''rderID").\<newline>'',
     ''    5.  A one-sentence `description` of what this chart shows.\<newline>'',
     ''    Return your answer as a *single, valid JSON array* (a list of obje'',
     ''cts).\<newline>'',
     ''    Do not include any other text, markdown, or explanations before or'',
     '' after the JSON array.\<newline>'',
     ''    '']\<close>

definition charts_request :: "world \<Rightarrow> dataframe \<Rightarrow> completion_request" where
  "charts_request w df_schema =
     \<lparr>system_content = json_system_content,
      user_content = charts_prompt (info w df_schema) (head_to_string w df_schema),
      model = ''gpt-3.5-turbo-0125'',
      temperature = 1 / 10\<rparr>"

text \<open>\<open>ai_response_text[start_index : end_index + 1]\<close>, or the \<open>ValueError\<close> of line 132.\<close>

definition clean_json_text :: "string \<Rightarrow> string \<Rightarrow> exn + string" where
  "clean_json_text msg ai_response_text =
     (let start_index = find_char CHR ''['' ai_response_text;
          end_index = rfind_char CHR '']'' ai_response_text
      in if start_index = - 1 \<or> end_index = - 1 then Inl (ValueError msg)
         else Inr (py_slice ai_response_text start_index (end_index + 1)))"

text \<open>What a \<open>for\<close> loop goes through: the elements of a list, the keys of a dictionary,
  the characters of a string; any other value is not iterable.\<close>

fun py_iter :: "json \<Rightarrow> exn + json list" where
  "py_iter (JArr xs) = Inr xs"
| "py_iter (JObj kvs) = Inr (map (\<lambda>kv. JStr (fst kv)) kvs)"
| "py_iter (JStr s) = Inr (map (\<lambda>c. JStr [c]) s)"
| "py_iter v = Inl TypeError"

text \<open>\<open>d[k] = v\<close> on a dictionary.\<close>

fun dict_set :: "(string \<times> json) list \<Rightarrow> string \<Rightarrow> json \<Rightarrow> (string \<times> json) list" where
  "dict_set [] k v = [(k, v)]"
| "dict_set ((k', v') # kvs) k v =
     (if k' = k then (k, v) # kvs else (k', v') # dict_set kvs k v)"

text \<open>The loop of lines 137 to 142. A recipe that reaches line 141 is a dictionary.\<close>

fun final_charts_list :: "world \<Rightarrow> dataframe \<Rightarrow> json list \<Rightarrow> exn + json list" where
  "final_charts_list w original_df [] = Inr []"
| "final_charts_list w original_df (recipe # rest) =
     (case prepare_chart_data w original_df recipe of
        Inl e \<Rightarrow> Inl e
      | Inr chart_data \<Rightarrow>
          (case final_charts_list w original_df rest of
             Inl e \<Rightarrow> Inl e
           | Inr charts \<Rightarrow>
               (case (chart_data, recipe) of
                  (Some (r # rs), JObj kvs) \<Rightarrow>
                    Inr (JObj (dict_set kvs ''chart_data'' (JArr (r # rs))) # charts)
                | _ \<Rightarrow> Inr charts)))"

text \<open>The result of the planner: the list of charts, or the dictionary
  \<open>{"error": "Failed to get AI analysis", "details": str(e)}\<close> for the exception \<open>e\<close>.\<close>

datatype planner_result = Charts "json list" | AnalysisError exn

definition get_ai_visualizations :: "world \<Rightarrow> dataframe \<Rightarrow> dataframe \<Rightarrow> planner_result" where
  "get_ai_visualizations w df_schema original_df =
     (case llm w (charts_request w df_schema) of
        ApiFailure m \<Rightarrow> AnalysisError (APIError m)
      | Content None \<Rightarrow> AnalysisError AttributeError
      | Content (Some ai_response_text) \<Rightarrow>
          (case clean_json_text ''AI response did not contain a valid JSON array.''
                  ai_response_text of
             Inl e \<Rightarrow> AnalysisError e
           | Inr text \<Rightarrow>
               (case json_loads w text of
                  None \<Rightarrow> AnalysisError JSONDecodeError
                | Some recipes_list \<Rightarrow>
                    (case py_iter recipes_list of
                       Inl e \<Rightarrow> AnalysisError e
                     | Inr recipes \<Rightarrow>
                         (case final_charts_list w original_df recipes of
                            Inl e \<Rightarrow> AnalysisError e
                          | Inr charts \<Rightarrow> Charts charts)))))"

section \<open>The insight generator\<close>

definition insights_prompt :: \<open>string \<Rightarrow> string \<Rightarrow> string\<close> where
  \<open>insights_prompt df_schema_info first_5_rows = concat
    [''\<newline>'',
     ''    You are a senior data analyst. You have been given a CSV file.\<newline>'',
     ''    Based on the data schema and first few rows, generate 10 high-leve'',
     ''l, interesting insights.\<newline>'',
     ''    \<newline>'',
     ''    Here is the data schema information from pandas `df.info()`:\<newline>'',
     ''    ---\<newline>'',
     ''    '',
     df_schema_info,
     ''\<newline>'',
     ''    ---\<newline>'',
     ''    Here are the first 5 rows of data for context:\<newline>'',
     ''    ---\<newline>'',
     ''    '',
     first_5_rows,
     ''\<newline>'',
     ''    ---\<newline>'',
     ''\<newline>'',
     ''    RULES:\<newline>'',
     ''    1.  Your insights should be 1-sentence bullet points.\<newline>'',
     ''    2.  Focus on potential relationships (e.g., "It seems 'Profit' mig'',
     ''ht be related to 'Discount'").\<newline>'',
     ''    3.  Identify key numerical and categorical columns to summarize (e'',
     ''.g., "The 'Region' column seems to be a key segment").\<newline>'',
     ''    4.  Do not make up specific numbers, just high-level observations.\<newline>'',
     ''    5.  Return your answer as a *single, valid JSON array of strings*.\<newline>'',
     ''    \<newline>'',
     ''    Example response:\<newline>'',
     ''    [\<newline>'',
     ''        "The dataset tracks sales, profit, and discounts across differ'',
     ''ent regions and categories.",\<newline>'',
     ''        "'Profit' appears to sometimes be negative, suggesting some or'',
     ''ders lose money.",\<newline>'',
     ''        "'OrderDate' could be used to analyze trends over time.",\<newline>'',
     ''        ...\<newline>'',
     ''    ]\<newline>'',
     ''    '']\<close>

definition insights_request :: "string \<Rightarrow> string \<Rightarrow> completion_request" where
  "insights_request df_schema_info first_5_rows =
     \<lparr>system_content = json_system_content,
      user_content = insights_prompt df_schema_info first_5_rows,
      model = ''gpt-3.5-turbo-0125'',
      temperature = 2 / 10\<rparr>"

definition insights_fallback :: json where
  "insights_fallback =
     JArr [JStr ''Failed to generate insights. The AI model may be temporarily down.'']"

definition get_ai_insights :: "world \<Rightarrow> string \<Rightarrow> string \<Rightarrow> json" where
  "get_ai_insights w df_schema_info first_5_rows =
     (case llm w (insights_request df_schema_info first_5_rows) of
        ApiFailure m \<Rightarrow> insights_fallback
      | Content None \<Rightarrow> insights_fallback
      | Content (Some ai_response_text) \<Rightarrow>
          (case clean_json_text ''AI insights response did not contain a valid JSON array.''
                  ai_response_text of
             Inl e \<Rightarrow> insights_fallback
           | Inr text \<Rightarrow>
               (case json_loads w text of
                  None \<Rightarrow> insights_fallback
                | Some insights_list \<Rightarrow> insights_list)))"

section \<open>The upload endpoint\<close>

text \<open>\<open>sep.join(xs)\<close>.\<close>

fun join :: "string \<Rightarrow> string list \<Rightarrow> string" where
  "join sep [] = []"
| "join sep [x] = x"
| "join sep (x # y # ys) = x @ sep @ join sep (y # ys)"

text \<open>The body of a response of the endpoint: \<open>{"error": text}\<close>, or the charts, the
  insights, the path and the column names.\<close>

datatype upload_body = ErrorBody string | Dashboard planner_result json string string

text \<open>\<open>files\<close> is \<open>request.files\<close>: under a field name, the file name and the bytes.\<close>

definition upload_file ::
  "world \<Rightarrow> server \<Rightarrow> (string \<rightharpoonup> string \<times> string) \<Rightarrow> (upload_body \<times> nat) \<times> server" where
  "upload_file w s files =
     (case files ''file'' of
        None \<Rightarrow> ((ErrorBody ''No file part in the request'', 400), s)
      | Some (filename, bytes) \<Rightarrow>
          if filename = [] then ((ErrorBody ''No file selected'', 400), s)
          else
            (let save_path = path_join w ''uploads'' filename
             in case save_and_read_csv w save_path bytes of
                  Inl e \<Rightarrow> ((ErrorBody (''Could not process file: '' @ e), 500), s)
                | Inr original_df \<Rightarrow>
                    (let s1 = s\<lparr>last_uploaded_filepath := Some (abspath w save_path),
                                 csv_column_names := join '', '' (columns original_df)\<rparr>
                     in case simple_df_of w original_df of
                          Inl e \<Rightarrow> ((ErrorBody (''Could not process file: '' @ e), 500), s1)
                        | Inr simple_df \<Rightarrow>
                            (let data_schema_info = info w simple_df;
                                 first_5_rows = head_to_string w simple_df;
                                 visualization_suggestions =
                                   get_ai_visualizations w simple_df original_df;
                                 ai_insights = get_ai_insights w data_schema_info first_5_rows;
                                 s2 = s1\<lparr>requests_sent := requests_sent s1 @
                                        [charts_request w simple_df,
                                         insights_request data_schema_info first_5_rows]\<rparr>
                             in ((Dashboard visualization_suggestions ai_insights
                                    (abspath w save_path) (join '', '' (columns original_df)),
                                  200), s2)))))"

section \<open>The chat endpoint\<close>

datatype chat_error = TimeoutExpired | CalledProcessError string | OtherException string

text \<open>\<open>subprocess.run(..., capture_output=True, text=True, check=True, timeout=t)\<close>.\<close>

definition subprocess_run :: "child \<Rightarrow> rat \<Rightarrow> chat_error + string" where
  "subprocess_run c t =
     (case c of
        Fails m \<Rightarrow> Inl (OtherException m)
      | Hangs \<Rightarrow> Inl TimeoutExpired
      | Exits elapsed returncode out err \<Rightarrow>
          if t < elapsed then Inl TimeoutExpired
          else if returncode \<noteq> 0 then Inl (CalledProcessError err)
          else Inr out)"

definition code_system_content :: string where
  "code_system_content = ''You are a Python data scientist that only responds with raw Python code. Do not include markdown ticks ```python or ```.''"

definition metrics_prompt_of :: "world \<Rightarrow> string \<Rightarrow> string" where
  "metrics_prompt_of w metrics_encoded =
     (if metrics_encoded \<noteq> []
      then ''Here are some user-defined metrics to use if needed:\<newline>''
             @ unquote w metrics_encoded @ ''\<newline>''
      else [])"

text \<open>The f-string of lines 302 to 345, as the list of its literal pieces and
  interpolated values, and the prompt as their concatenation.\<close>

definition final_prompt_parts ::
  \<open>string \<Rightarrow> string \<Rightarrow> string \<Rightarrow> string \<Rightarrow> string \<Rightarrow> string list\<close> where
  \<open>final_prompt_parts cols chat_history metrics_prompt question safe_filepath =
    [''\<newline>'',
     ''        You are a data analyst AI. Your only job is to write a single,'',
     '' executable, standalone Python script to answer the user's question.\<newline>'',
     ''        \<newline>'',
     ''        CSV Columns: '',
     cols,
     ''\<newline>'',
     ''        CHAT HISTORY (for context): '',
     chat_history,
     ''\<newline>'',
     ''        '',
     metrics_prompt,
     ''\<newline>'',
     ''\<newline>'',
     ''        ---\<newline>'',
     ''        First, analyze the user's question: "'',
     question,
     ''"\<newline>'',
     ''        \<newline>'',
     ''        1.  Is this a "WHAT" question (asking for a specific calculati'',
     ''on, like "what is the total profit", "who is the top customer")?\<newline>'',
     ''        2.  Or is this a "WHY" or "HOW" question (asking for an explan'',
     ''ation or correlation, like "why did sales drop", "how did discounts af'',
     ''fect profit")?\<newline>'',
     ''        \<newline>'',
     ''        If it is a "WHAT" question:\<newline>'',
     ''        Write a Python script that calculates the answer and prints a '',
     ''concise, human-readable sentence.\<newline>'',
     ''        Your script MUST start with `import pandas as pd` and `df = pd'',
     ''.read_csv("'',
     safe_filepath,
     ''")`.\<newline>'',
     ''        Your script MUST NOT include any other `import` statements.\<newline>'',
     ''        Your script MUST end with a single `print()` statement.\<newline>'',
     ''        Example for "What's the total profit?":\<newline>'',
     ''        import pandas as pd\<newline>'',
     ''        df = pd.read_csv("'',
     safe_filepath,
     ''")\<newline>'',
     ''        print(f"The total profit is ${df['Profit'].sum():,.2f}")\<newline>'',
     ''        \<newline>'',
     ''        If it is a "WHY" or "HOW" question:\<newline>'',
     ''        Write a Python script that finds correlations or data points t'',
     ''hat *might* explain the answer.\<newline>'',
     ''        You can use `df.corr()` for numerical columns.\<newline>'',
     ''        You can use `df.groupby()` to compare categories.\<newline>'',
     ''        Your answer should be an *observation*, not a *conclusion*.\<newline>'',
     ''        Your script MUST start with `import pandas as pd` and `df = pd'',
     ''.read_csv("'',
     safe_filepath,
     ''", parse_dates=True)`.\<newline>'',
     ''        Example for "Why did profit drop in March?":\<newline>'',
     ''        import pandas as pd\<newline>'',
     ''        df = pd.read_csv("'',
     safe_filepath,
     ''", parse_dates=['OrderDate'])\<newline>'',
     ''        # Make sure OrderDate is a datetime object\<newline>'',
     ''        df['OrderDate'] = pd.to_datetime(df['OrderDate'], errors='coer'',
     ''ce')\<newline>'',
     ''        df_march = df[df['OrderDate'].dt.month == 3]\<newline>'',
     ''        march_profit = df_march['Profit'].sum()\<newline>'',
     ''        feb_profit = df[df['OrderDate'].dt.month == 2]['Profit'].sum()\<newline>'',
     ''        # You can't know the "why", but you can find correlations.\<newline>'',
     ''        march_discounts = df_march['Discount'].mean()\<newline>'',
     ''        feb_discounts = df[df['OrderDate'].dt.month == 2]['Discount'].'',
     ''mean()\<newline>'',
     ''        print(f"Profit dropped from {feb_profit} in Feb to {march_prof'',
     ''it} in March. One observation: the average discount also changed from '',
     ''{feb_discounts:.2f} to {march_discounts:.2f} in that time.")\<newline>'',
     ''\<newline>'',
     ''        Now, write *only* the Python script to answer: "'',
     question,
     ''"\<newline>'',
     ''        '']\<close>

definition final_prompt :: "string \<Rightarrow> string \<Rightarrow> string \<Rightarrow> string \<Rightarrow> string \<Rightarrow> string" where
  "final_prompt cols chat_history metrics_prompt question safe_filepath =
     concat (final_prompt_parts cols chat_history metrics_prompt question safe_filepath)"

definition code_request ::
  "world \<Rightarrow> string \<Rightarrow> string \<Rightarrow> string \<Rightarrow> string \<Rightarrow> string \<Rightarrow> completion_request" where
  "code_request w question metrics_encoded chat_history filepath cols =
     \<lparr>system_content = code_system_content,
      user_content =
        final_prompt cols chat_history (metrics_prompt_of w metrics_encoded) question
          (replace_backslash filepath),
      model = ''gpt-3.5-turbo-0125'',
      temperature = 0\<rparr>"

definition no_output_answer :: string where
  "no_output_answer = ''I'm sorry, I ran the code but it didn't produce an answer. Please try rephrasing your question.''"

text \<open>The body of the \<open>try\<close> block: the answer, or the exception that leaves it, and the
  state it leaves behind either way.\<close>

definition run_generated_code ::
  "world \<Rightarrow> server \<Rightarrow> string \<Rightarrow> string \<Rightarrow> string \<Rightarrow> string \<Rightarrow> string
     \<Rightarrow> (chat_error + string) \<times> server" where
  "run_generated_code w s question metrics_encoded chat_history filepath cols =
     (let rq = code_request w question metrics_encoded chat_history filepath cols;
          s1 = s\<lparr>requests_sent := requests_sent s @ [rq]\<rparr>
      in case llm w rq of
           ApiFailure m \<Rightarrow> (Inl (OtherException m), s1)
         | Content python_code_to_run \<Rightarrow>
             (case open_error w of
                Some m \<Rightarrow> (Inl (OtherException m), s1)
              | None \<Rightarrow>
                  (case python_code_to_run of
                     None \<Rightarrow>
                       (Inl (OtherException ''write() argument must be str, not None''),
                        s1\<lparr>temp_chat_script := Some []\<rparr>)
                   | Some code \<Rightarrow>
                       (let s2 = s1\<lparr>temp_chat_script := Some code\<rparr>
                        in case subprocess_run (child w code) 15 of
                             Inl e \<Rightarrow> (Inl e, s2)
                           | Inr out \<Rightarrow>
                               (let final_answer = strip out
                                in (Inr (if final_answer = [] then no_output_answer
                                         else final_answer), s2))))))"

definition must_ask_answer :: string where
  "must_ask_answer = ''You must ask a question.''"

definition upload_first_answer :: string where
  "upload_first_answer = ''I'm sorry, I can't answer questions. Please upload a CSV file first.''"

definition timeout_answer :: string where
  "timeout_answer = ''I'm sorry, the calculation took too long to run and was stopped. Please ask a simpler question.''"

definition script_error_answer :: "string \<Rightarrow> string" where
  "script_error_answer err = ''I'm sorry, the AI's code failed to run. (Error: '' @ strip err @ '')''"

definition other_error_answer :: "string \<Rightarrow> string" where
  "other_error_answer m = ''I'm sorry, I encountered an error. The AI's code may have failed. (Error: '' @ m @ '')''"

text \<open>
  The \<open>except\<close> clauses of the handler, and its \<open>return\<close> at the end of the \<open>try\<close>
  block: the text of the \<open>answer\<close> member of the response and the HTTP status.
\<close>

fun reply_of :: "chat_error + string \<Rightarrow> string \<times> nat" where
  "reply_of (Inr final_answer) = (final_answer, 200)"
| "reply_of (Inl TimeoutExpired) = (timeout_answer, 500)"
| "reply_of (Inl (CalledProcessError err)) = (script_error_answer err, 500)"
| "reply_of (Inl (OtherException m)) = (other_error_answer m, 500)"

text \<open>
  The handler. \<open>data\<close> is the JSON body, an object of strings; a response is the text of
  its \<open>answer\<close> member and the HTTP status.
\<close>

definition metrics_field :: "(string \<rightharpoonup> string) \<Rightarrow> string" where
  "metrics_field data = (case data ''metrics'' of None \<Rightarrow> [] | Some m \<Rightarrow> m)"

definition history_field :: "(string \<rightharpoonup> string) \<Rightarrow> string" where
  "history_field data =
     (case data ''history'' of None \<Rightarrow> ''No prior conversation.'' | Some h \<Rightarrow> h)"

definition chat_with_data ::
  "world \<Rightarrow> server \<Rightarrow> (string \<rightharpoonup> string) \<Rightarrow> (string \<times> nat) \<times> server" where
  "chat_with_data w s data =
     (let metrics_encoded = metrics_field data;
          chat_history = history_field data
      in case data ''question'' of
           None \<Rightarrow> ((must_ask_answer, 400), s)
         | Some question \<Rightarrow>
             if question = [] then ((must_ask_answer, 400), s)
             else
               (case data ''filepath'' of
                  None \<Rightarrow> ((upload_first_answer, 400), s)
                | Some filepath \<Rightarrow>
                    (case data ''columns'' of
                       None \<Rightarrow> ((upload_first_answer, 400), s)
                     | Some cols \<Rightarrow>
                         if filepath = [] \<or> cols = [] then ((upload_first_answer, 400), s)
                         else
                           (case run_generated_code w s question metrics_encoded
                                   chat_history filepath cols of
                              (outcome, s') \<Rightarrow> (reply_of outcome, s')))))"

section \<open>The process over a sequence of requests\<close>

text \<open>The two endpoints serve requests one after the other on the same globals and the
  same scratch file.\<close>

datatype request = Upload "string \<rightharpoonup> string \<times> string" | Chat "string \<rightharpoonup> string"

fun handle :: "world \<Rightarrow> server \<Rightarrow> request \<Rightarrow> server" where
  "handle w s (Upload files) = snd (upload_file w s files)"
| "handle w s (Chat data) = snd (chat_with_data w s data)"

definition serve :: "world \<Rightarrow> server \<Rightarrow> request list \<Rightarrow> server" where
  "serve w s rs = foldl (handle w) s rs"

fun is_chat :: "request \<Rightarrow> bool" where
  "is_chat (Chat data) = True"
| "is_chat (Upload files) = False"

section \<open>Concrete inputs\<close>

text \<open>The state of a freshly started process (lines 45 and 46), before any request.\<close>

definition initial_server :: server where
  "initial_server =
     \<lparr>last_uploaded_filepath = None, csv_column_names = [],
      temp_chat_script = None, requests_sent = []\<rparr>"

text \<open>A three-row frame with a text column and a numeric column.\<close>

definition sales_row :: "string \<Rightarrow> rat \<Rightarrow> string \<Rightarrow> cell" where
  "sales_row region amount label =
     (if label = ''Region'' then Str region
      else if label = ''Sales'' then Num amount
      else NaN)"

definition sales_df :: dataframe where
  "sales_df =
     \<lparr>columns = [''Region'', ''Sales''],
      is_numeric_dtype = (\<lambda>label. label = ''Sales''),
      rows = [sales_row ''EU'' 10, sales_row ''US'' 5, sales_row ''EU'' 7]\<rparr>"

text \<open>The same columns read from a file that has a header line and no data line.\<close>

definition header_only_df :: dataframe where
  "header_only_df =
     \<lparr>columns = [''Region'', ''Sales''], is_numeric_dtype = (\<lambda>label. False), rows = []\<rparr>"

text \<open>\<open>json.loads\<close> on the texts used below, and failing on every other text.\<close>

definition demo_loads :: \<open>string \<Rightarrow> json option\<close> where
  \<open>demo_loads text =
     (if text = ''[{"a":1}]'' then Some (JArr [JObj [(''a'', JNum 1)]])
      else if text = ''[1, "two"]'' then Some (JArr [JNum 1, JStr ''two''])
      else if text = ''[{"chart_type":"Bar Chart","x_column":"Region","y_column":5},{"chart_type":"Bar Chart","x_column":"Region","y_column":"Sales"}]''
      then Some (JArr
        [JObj [(''chart_type'', JStr ''Bar Chart''), (''x_column'', JStr ''Region''),
               (''y_column'', JNum 5)],
         JObj [(''chart_type'', JStr ''Bar Chart''), (''x_column'', JStr ''Region''),
               (''y_column'', JStr ''Sales'')]])
      else None)\<close>

text \<open>A world around a given model and a given behaviour of the interpreter: the
  scratch file opens, \<open>df.sample\<close> draws the rows last to first, every upload reads as
  the three-row frame.\<close>

definition demo_world :: "(completion_request \<Rightarrow> llm_reply) \<Rightarrow> child \<Rightarrow> world" where
  "demo_world reply c =
     \<lparr>llm = reply,
      unquote = (\<lambda>s. s),
      json_loads = demo_loads,
      open_error = None,
      child = (\<lambda>code. c),
      shuffle = rev,
      path_join = (\<lambda>d f. d @ ''/'' @ f),
      abspath = (\<lambda>p. ''/srv/app/'' @ p),
      save_and_read_csv = (\<lambda>p b. Inr sales_df),
      simple_df_of = (\<lambda>df. Inr df),
      info = (\<lambda>df. join '', '' (columns df)),
      head_to_string = (\<lambda>df. [])\<rparr>"

text \<open>A chat request that names a question, a path and the column list.\<close>

definition demo_chat :: "string \<rightharpoonup> string" where
  "demo_chat =
     [''question'' \<mapsto> ''What is the total of Sales?'',
      ''filepath'' \<mapsto> ''C:'' @ [backslash] @ ''data'' @ [backslash] @ ''sales.csv'',
      ''columns'' \<mapsto> ''Region, Sales'']"

text \<open>A model that answers every request with the same text.\<close>

definition always :: "string \<Rightarrow> completion_request \<Rightarrow> llm_reply" where
  "always text rq = Content (Some text)"

text \<open>The state after an upload that was saved as \<open>/srv/app/uploads/sales.csv\<close>.\<close>

definition uploaded_server :: server where
  "uploaded_server =
     \<lparr>last_uploaded_filepath = Some ''/srv/app/uploads/sales.csv'',
      csv_column_names = ''Region, Sales'',
      temp_chat_script = None, requests_sent = []\<rparr>"

text \<open>An upload of a file named \<open>sales.csv\<close>.\<close>

definition demo_files :: "string \<rightharpoonup> string \<times> string" where
  "demo_files = [''file'' \<mapsto> (''sales.csv'', ''Region,Sales'')]"

section \<open>Facts about text\<close>

lemma isspace_examples:
  "isspace CHR '' ''" "isspace CHR 0x0A" "\<not> isspace CHR ''h''" "\<not> isspace CHR ''o''"
  by (simp_all add: isspace_def)

lemma strip_examples:
  "strip ''  hello\<newline>'' = ''hello''"
  "rstrip ''  hello\<newline>'' = ''  hello''"
  "strip '' \<newline>'' = []"
  "strip ''42\<newline>'' = ''42''"
  "strip ''NameError: x\<newline>'' = ''NameError: x''"
  by (simp_all add: strip_def lstrip_def rstrip_def isspace_def)

text \<open>\<open>strip\<close> removes a run of whitespace at each end and nothing else, and what is left
  neither starts nor ends with whitespace.\<close>

lemma rstrip_decomp: "\<exists>post. s = rstrip s @ post \<and> (\<forall>c \<in> set post. isspace c)"
proof -
  have "rev s = takeWhile isspace (rev s) @ dropWhile isspace (rev s)" by simp
  then have "s = rev (dropWhile isspace (rev s)) @ rev (takeWhile isspace (rev s))"
    by (metis rev_append rev_rev_ident)
  moreover have "\<forall>c \<in> set (rev (takeWhile isspace (rev s))). isspace c"
    by (auto dest: set_takeWhileD)
  ultimately show ?thesis unfolding rstrip_def by blast
qed

lemma strip_decomp:
  "\<exists>pre post. s = pre @ strip s @ post
      \<and> (\<forall>c \<in> set pre. isspace c) \<and> (\<forall>c \<in> set post. isspace c)"
proof -
  obtain post where p: "lstrip s = rstrip (lstrip s) @ post" "\<forall>c \<in> set post. isspace c"
    using rstrip_decomp[of "lstrip s"] by blast
  have "s = takeWhile isspace s @ lstrip s" by (simp add: lstrip_def)
  then have "s = takeWhile isspace s @ strip s @ post" using p(1) by (simp add: strip_def)
  moreover have "\<forall>c \<in> set (takeWhile isspace s). isspace c" by (auto dest: set_takeWhileD)
  ultimately show ?thesis using p(2) by blast
qed

lemma strip_ends:
  assumes "strip s \<noteq> []"
  shows "\<not> isspace (hd (strip s)) \<and> \<not> isspace (last (strip s))"
proof -
  let ?l = "lstrip s"
  have ne: "dropWhile isspace (rev ?l) \<noteq> []" using assms by (simp add: strip_def rstrip_def)
  then have l: "\<not> isspace (hd (dropWhile isspace (rev ?l)))" by (rule hd_dropWhile)
  have "last (strip s) = hd (dropWhile isspace (rev ?l))"
    using ne by (simp add: strip_def rstrip_def last_rev)
  then have 1: "\<not> isspace (last (strip s))" using l by simp
  have lne: "?l \<noteq> []" using assms by (auto simp: strip_def rstrip_def)
  then have h: "\<not> isspace (hd ?l)" unfolding lstrip_def by (rule hd_dropWhile)
  obtain post where p: "?l = strip s @ post"
    using rstrip_decomp[of ?l] by (auto simp: strip_def)
  then have "hd ?l = hd (strip s)" using assms by (metis hd_append2)
  then show ?thesis using h 1 by simp
qed

section \<open>Facts about the chat endpoint\<close>

lemma chat_accepted:
  assumes "data ''question'' = Some q" "q \<noteq> []" "data ''filepath'' = Some fp" "fp \<noteq> []"
    "data ''columns'' = Some cols" "cols \<noteq> []"
  shows "chat_with_data w s data =
    (reply_of (fst (run_generated_code w s q (metrics_field data) (history_field data) fp cols)),
     snd (run_generated_code w s q (metrics_field data) (history_field data) fp cols))"
  using assms by (simp add: chat_with_data_def Let_def split_beta)


lemma run_generated_code_ran:
  assumes "llm w (code_request w q me h fp cols) = Content (Some code)" "open_error w = None"
  shows "run_generated_code w s q me h fp cols =
    ((case subprocess_run (child w code) 15 of
        Inl e \<Rightarrow> Inl e
      | Inr out \<Rightarrow> Inr (if strip out = [] then no_output_answer else strip out)),
     s\<lparr>requests_sent := requests_sent s @ [code_request w q me h fp cols],
       temp_chat_script := Some code\<rparr>)"
  using assms by (simp add: run_generated_code_def Let_def split: sum.splits)

lemma chat_ran:
  assumes "data ''question'' = Some q" "q \<noteq> []" "data ''filepath'' = Some fp" "fp \<noteq> []"
    "data ''columns'' = Some cols" "cols \<noteq> []"
    and "llm w (code_request w q (metrics_field data) (history_field data) fp cols)
           = Content (Some code)"
    and "open_error w = None"
  shows "chat_with_data w s data =
    (reply_of (case subprocess_run (child w code) 15 of
        Inl e \<Rightarrow> Inl e
      | Inr out \<Rightarrow> Inr (if strip out = [] then no_output_answer else strip out)),
     s\<lparr>requests_sent := requests_sent s @
            [code_request w q (metrics_field data) (history_field data) fp cols],
       temp_chat_script := Some code\<rparr>)"
  unfolding chat_accepted[OF assms(1-6)] run_generated_code_ran[OF assms(7,8)] by simp

lemma demo_chat_fields:
  "demo_chat ''question'' = Some ''What is the total of Sales?''"
  "demo_chat ''filepath'' = Some (''C:'' @ [backslash] @ ''data'' @ [backslash] @ ''sales.csv'')"
  "demo_chat ''columns'' = Some ''Region, Sales''"
  "demo_chat ''metrics'' = None"
  "demo_chat ''history'' = None"
  by (simp_all add: demo_chat_def)

lemma demo_world_fields:
  "llm (demo_world reply c) = reply"
  "open_error (demo_world reply c) = None"
  "child (demo_world reply c) = (\<lambda>code. c)"
  "unquote (demo_world reply c) = (\<lambda>s. s)"
  "json_loads (demo_world reply c) = demo_loads"
  "shuffle (demo_world reply c) = rev"
  by (simp_all add: demo_world_def)

text \<open>The demo request against a model that always writes \<open>code\<close>.\<close>

lemma demo_chat_ran:
  "chat_with_data (demo_world (always code) c) s demo_chat =
    (reply_of (case subprocess_run c 15 of
        Inl e \<Rightarrow> Inl e
      | Inr out \<Rightarrow> Inr (if strip out = [] then no_output_answer else strip out)),
     s\<lparr>requests_sent := requests_sent s @
            [code_request (demo_world (always code) c) ''What is the total of Sales?''
               (metrics_field demo_chat) (history_field demo_chat)
               (''C:'' @ [backslash] @ ''data'' @ [backslash] @ ''sales.csv'') ''Region, Sales''],
       temp_chat_script := Some code\<rparr>)"
  using chat_ran[OF demo_chat_fields(1) _ demo_chat_fields(2) _ demo_chat_fields(3),
      of "demo_world (always code) c" code s]
  by (simp add: demo_world_fields always_def)

section \<open>The claims about the chat endpoint\<close>

text \<open>
  C1, as stated, fails: the answer is the standard output with the whitespace removed
  at both ends, not only at the end, and an output of whitespace alone gives the
  fallback message.
\<close>

theorem executor_strip_counterexample:
  "fst (chat_with_data (demo_world (always ''print(1)'') (Exits 1 0 ''  hello\<newline>'' []))
          initial_server demo_chat) = (''hello'', 200)
   \<and> rstrip ''  hello\<newline>'' = ''  hello''
   \<and> fst (chat_with_data (demo_world (always ''print(1)'') (Exits 1 0 '' \<newline>'' []))
          initial_server demo_chat) = (no_output_answer, 200)"
  by (simp add: demo_chat_ran subprocess_run_def strip_examples)

text \<open>
  C1, amended. For a chat request that passes the two guards, when the model returns a
  script and the scratch file can be written:
  \<^item> a child that exits with status 0 within the 15 seconds gives status 200 and, as the
    answer, its standard output stripped of whitespace at both ends if that is not
    empty, and the fixed fallback message if it is empty;
  \<^item> a child still running after 15 seconds gives status 500 and the fixed apology of the
    \<open>TimeoutExpired\<close> clause;
  \<^item> a child that exits in time with a non-zero status gives status 500 and the apology
    of the \<open>CalledProcessError\<close> clause around its standard error, stripped at both ends.
\<close>

theorem executor_outcomes:
  assumes "data ''question'' = Some q" "q \<noteq> []" "data ''filepath'' = Some fp" "fp \<noteq> []"
    "data ''columns'' = Some cols" "cols \<noteq> []"
    and "llm w (code_request w q (metrics_field data) (history_field data) fp cols)
           = Content (Some code)"
    and "open_error w = None"
  shows "(child w code = Exits t 0 out err \<and> t \<le> 15 \<and> strip out \<noteq> []
            \<longrightarrow> fst (chat_with_data w s data) = (strip out, 200))
       \<and> (child w code = Exits t 0 out err \<and> t \<le> 15 \<and> strip out = []
            \<longrightarrow> fst (chat_with_data w s data) = (no_output_answer, 200))
       \<and> (child w code = Hangs \<or> (child w code = Exits t rc out err \<and> 15 < t)
            \<longrightarrow> fst (chat_with_data w s data) = (timeout_answer, 500))
       \<and> (child w code = Exits t rc out err \<and> t \<le> 15 \<and> rc \<noteq> 0
            \<longrightarrow> fst (chat_with_data w s data)
                  = (''I'm sorry, the AI's code failed to run. (Error: '' @ strip err @ '')'', 500))"
  unfolding chat_ran[OF assms]
  by (auto simp: subprocess_run_def script_error_answer_def)

theorem executor_outcomes_witness:
  "fst (chat_with_data (demo_world (always ''print(42)'') (Exits 1 0 ''42\<newline>'' []))
          initial_server demo_chat) = (''42'', 200)
   \<and> fst (chat_with_data (demo_world (always ''pass'') (Exits 1 0 [] []))
          initial_server demo_chat) = (no_output_answer, 200)
   \<and> fst (chat_with_data (demo_world (always ''while True: pass'') Hangs)
          initial_server demo_chat) = (timeout_answer, 500)
   \<and> fst (chat_with_data (demo_world (always ''import time; time.sleep(20)'') (Exits 20 0 [] []))
          initial_server demo_chat) = (timeout_answer, 500)
   \<and> fst (chat_with_data (demo_world (always ''x'') (Exits 1 1 [] ''NameError: x\<newline>''))
          initial_server demo_chat)
       = (''I'm sorry, the AI's code failed to run. (Error: NameError: x)'', 500)"
proof -
  note f = demo_chat_fields(1) _ demo_chat_fields(2) _ demo_chat_fields(3)
  have g: "llm (demo_world (always code) c) rq = Content (Some code)"
    "open_error (demo_world (always code) c) = None" for code c rq
    by (simp_all add: demo_world_fields always_def)
  have 1: "fst (chat_with_data (demo_world (always ''print(42)'') (Exits 1 0 ''42\<newline>'' []))
          initial_server demo_chat) = (''42'', 200)"
    using executor_outcomes[OF f _ g, where t = 1 and out = "''42\<newline>''" and err = "[]"
        and s = initial_server and rc = 0]
    by (simp add: demo_world_fields strip_examples)
  have 2: "fst (chat_with_data (demo_world (always ''pass'') (Exits 1 0 [] []))
          initial_server demo_chat) = (no_output_answer, 200)"
    using executor_outcomes[OF f _ g, where t = 1 and out = "[]" and err = "[]"
        and s = initial_server and rc = 0]
    by (simp add: demo_world_fields strip_def rstrip_def lstrip_def)
  have 3: "fst (chat_with_data (demo_world (always ''while True: pass'') Hangs)
          initial_server demo_chat) = (timeout_answer, 500)"
    using executor_outcomes[OF f _ g, where t = 0 and out = "[]" and err = "[]"
        and s = initial_server and rc = 0]
    by (simp add: demo_world_fields)
  have 4: "fst (chat_with_data (demo_world (always ''import time; time.sleep(20)'') (Exits 20 0 [] []))
          initial_server demo_chat) = (timeout_answer, 500)"
    using executor_outcomes[OF f _ g, where t = 20 and out = "[]" and err = "[]"
        and s = initial_server and rc = 0]
    by (simp add: demo_world_fields)
  have 5: "fst (chat_with_data (demo_world (always ''x'') (Exits 1 1 [] ''NameError: x\<newline>''))
          initial_server demo_chat)
       = (''I'm sorry, the AI's code failed to run. (Error: NameError: x)'', 500)"
    using executor_outcomes[OF f _ g, where t = 1 and out = "[]"
        and err = "''NameError: x\<newline>''" and s = initial_server and rc = 1]
    by (simp add: demo_world_fields strip_examples)
  from 1 2 3 4 5 show ?thesis by blast
qed

lemma run_generated_code_frame:
  "last_uploaded_filepath (snd (run_generated_code w s q me h fp cols)) = last_uploaded_filepath s
   \<and> csv_column_names (snd (run_generated_code w s q me h fp cols)) = csv_column_names s"
  by (simp add: run_generated_code_def Let_def
      split: llm_reply.splits option.splits sum.splits)

lemma run_generated_code_sent:
  "requests_sent (snd (run_generated_code w s q me h fp cols))
     = requests_sent s @ [code_request w q me h fp cols]"
  by (simp add: run_generated_code_def Let_def
      split: llm_reply.splits option.splits sum.splits)

lemma run_generated_code_outcome:
  "fst (run_generated_code w s q me h fp cols) = fst (run_generated_code w s' q me h fp cols)"
  by (simp add: run_generated_code_def Let_def
      split: llm_reply.splits option.splits sum.splits)

lemma chat_frame:
  "last_uploaded_filepath (snd (chat_with_data w s data)) = last_uploaded_filepath s
   \<and> csv_column_names (snd (chat_with_data w s data)) = csv_column_names s"
  using run_generated_code_frame
  by (simp add: chat_with_data_def Let_def split_beta split: option.splits)

lemma chat_reply_independent:
  "fst (chat_with_data w s data) = fst (chat_with_data w s' data)"
  using run_generated_code_outcome[of w s _ _ _ _ _ s']
  by (simp add: chat_with_data_def Let_def split_beta split: option.splits)

lemma serve_chats_frame:
  "\<forall>r \<in> set rs. is_chat r \<Longrightarrow>
     last_uploaded_filepath (serve w s rs) = last_uploaded_filepath s
     \<and> csv_column_names (serve w s rs) = csv_column_names s"
proof (induction rs arbitrary: s)
  case Nil
  then show ?case by (simp add: serve_def)
next
  case (Cons r rs)
  then obtain data where r: "r = Chat data" by (cases r) auto
  have "serve w s (r # rs) = serve w (snd (chat_with_data w s data)) rs"
    by (simp add: serve_def r)
  then show ?case using Cons chat_frame[of w s data] by simp
qed

text \<open>
  C2, as stated, fails: the handler writes the content of the model's message to the
  scratch file as it is. A response wrapped in a code fence is written, and run, with
  the fence.
\<close>

theorem fenced_script_counterexample:
  "temp_chat_script (snd (chat_with_data
       (demo_world (always ''```python\<newline>print(1)\<newline>```'')
          (Exits 1 1 [] ''SyntaxError: invalid syntax''))
       initial_server demo_chat))
     = Some ''```python\<newline>print(1)\<newline>```''
   \<and> str_contains ''```python\<newline>print(1)\<newline>```'' ''```''"
  by (simp add: demo_chat_ran)

text \<open>
  C2, amended. For a chat request that passes the two guards, when the model returns a
  text and the scratch file can be written, the scratch file holds exactly that text,
  unchanged, and the interpreter is run on exactly that text: nothing strips a code
  fence (the system message only asks the model not to write one).
\<close>

theorem script_written_verbatim:
  assumes "data ''question'' = Some q" "q \<noteq> []" "data ''filepath'' = Some fp" "fp \<noteq> []"
    "data ''columns'' = Some cols" "cols \<noteq> []"
    and "llm w (code_request w q (metrics_field data) (history_field data) fp cols)
           = Content (Some code)"
    and "open_error w = None"
  shows "temp_chat_script (snd (chat_with_data w s data)) = Some code
       \<and> fst (chat_with_data w s data)
           = reply_of (case subprocess_run (child w code) 15 of
                         Inl e \<Rightarrow> Inl e
                       | Inr out \<Rightarrow>
                           Inr (if strip out = [] then no_output_answer else strip out))"
  unfolding chat_ran[OF assms] by simp

theorem script_written_verbatim_witness:
  "temp_chat_script (snd (chat_with_data (demo_world (always ''print(42)'') (Exits 1 0 ''42\<newline>'' []))
       initial_server demo_chat)) = Some ''print(42)''
   \<and> fst (chat_with_data (demo_world (always ''print(42)'') (Exits 1 0 ''42\<newline>'' []))
       initial_server demo_chat) = (''42'', 200)"
proof -
  note f = demo_chat_fields(1) _ demo_chat_fields(2) _ demo_chat_fields(3)
  have g: "llm (demo_world (always code) c) rq = Content (Some code)"
    "open_error (demo_world (always code) c) = None" for code c rq
    by (simp_all add: demo_world_fields always_def)
  show ?thesis
    using script_written_verbatim[OF f _
        g[where code = "''print(42)''" and c = "Exits 1 0 ''42\<newline>'' []"],
        where s = initial_server]
    by (simp add: demo_world_fields subprocess_run_def strip_examples)
qed

text \<open>
  C5, as stated, fails: the question is checked first. A body with neither a question
  nor a path is answered with the message of the first guard, and so is a body with an
  empty question.
\<close>

theorem missing_question_counterexample:
  "fst (chat_with_data (demo_world (always ''print(1)'') Hangs) initial_server Map.empty)
     = (''You must ask a question.'', 400)
   \<and> fst (chat_with_data (demo_world (always ''print(1)'') Hangs) initial_server
          [''question'' \<mapsto> [], ''columns'' \<mapsto> ''Region, Sales''])
     = (''You must ask a question.'', 400)"
  by (simp add: chat_with_data_def must_ask_answer_def)

text \<open>
  C5, amended. A body whose question is missing or empty is answered with status 400
  and the message of the first guard, whatever else it holds. A body with a non-empty
  question whose \<open>filepath\<close> or \<open>columns\<close> is missing or empty is answered with status
  400 and the fixed message that asks for an upload first. Neither case changes the
  state or calls the model.
\<close>

theorem chat_guards:
  "(data ''question'' = None \<or> data ''question'' = Some []
      \<longrightarrow> chat_with_data w s data = ((''You must ask a question.'', 400), s))
   \<and> (data ''question'' = Some q \<and> q \<noteq> []
        \<and> (data ''filepath'' = None \<or> data ''filepath'' = Some []
             \<or> data ''columns'' = None \<or> data ''columns'' = Some [])
      \<longrightarrow> chat_with_data w s data
            = ((''I'm sorry, I can't answer questions. Please upload a CSV file first.'', 400), s))"
  by (auto simp: chat_with_data_def must_ask_answer_def upload_first_answer_def
      split: option.splits)

theorem chat_guards_witness:
  "chat_with_data (demo_world (always ''print(1)'') Hangs) initial_server
       [''filepath'' \<mapsto> ''/srv/app/uploads/sales.csv'']
     = ((''You must ask a question.'', 400), initial_server)
   \<and> chat_with_data (demo_world (always ''print(1)'') Hangs) initial_server
       [''question'' \<mapsto> ''What is the total?'', ''columns'' \<mapsto> ''Region, Sales'']
     = ((''I'm sorry, I can't answer questions. Please upload a CSV file first.'', 400),
        initial_server)"
proof -
  have 1: "chat_with_data (demo_world (always ''print(1)'') Hangs) initial_server
       [''filepath'' \<mapsto> ''/srv/app/uploads/sales.csv'']
     = ((''You must ask a question.'', 400), initial_server)"
    using chat_guards[of "[''filepath'' \<mapsto> ''/srv/app/uploads/sales.csv'']"
        "demo_world (always ''print(1)'') Hangs" initial_server "[]"]
    by simp
  have 2: "chat_with_data (demo_world (always ''print(1)'') Hangs) initial_server
       [''question'' \<mapsto> ''What is the total?'', ''columns'' \<mapsto> ''Region, Sales'']
     = ((''I'm sorry, I can't answer questions. Please upload a CSV file first.'', 400),
        initial_server)"
    using chat_guards[of "[''question'' \<mapsto> ''What is the total?'', ''columns'' \<mapsto> ''Region, Sales'']"
        "demo_world (always ''print(1)'') Hangs" initial_server "''What is the total?''"]
    by simp
  from 1 2 show ?thesis by blast
qed

section \<open>Facts about the prompt of the chat endpoint\<close>

lemma concat_three_pieces:
  "xs = as @ [a, b, c] @ bs \<Longrightarrow> \<exists>pre post. concat xs = pre @ a @ b @ c @ post"
  by auto

lemma final_prompt_columns_line:
  "\<exists>pre post. final_prompt cols h mp q safe
      = pre @ ''        CSV Columns: '' @ cols @ ''\<newline>'' @ post"
  unfolding final_prompt_def
proof (rule concat_three_pieces)
  show "final_prompt_parts cols h mp q safe
      = take 4 (final_prompt_parts cols h mp q safe)
        @ [''        CSV Columns: '', cols, ''\<newline>'']
        @ drop 7 (final_prompt_parts cols h mp q safe)"
    by (simp add: final_prompt_parts_def)
qed

lemma final_prompt_load_line:
  \<open>\<exists>pre post. final_prompt cols h mp q safe
      = pre @ ''        df = pd.read_csv("'' @ safe @ ''")\<newline>'' @ post\<close>
  unfolding final_prompt_def
proof (rule concat_three_pieces)
  show \<open>final_prompt_parts cols h mp q safe
      = take 36 (final_prompt_parts cols h mp q safe)
        @ [''        df = pd.read_csv("'', safe, ''")\<newline>'']
        @ drop 39 (final_prompt_parts cols h mp q safe)\<close>
    by (simp add: final_prompt_parts_def)
qed

text \<open>\<open>replace_backslash\<close> doubles every backslash and keeps every other character.\<close>

lemma replace_backslash_simps:
  "replace_backslash [] = []"
  "replace_backslash (c # s) =
     (if c = CHR 0x5C then [CHR 0x5C, CHR 0x5C] else [c]) @ replace_backslash s"
  by (simp_all add: replace_backslash_def backslash_def)

lemma replace_backslash_append:
  "replace_backslash (a @ b) = replace_backslash a @ replace_backslash b"
  by (simp add: replace_backslash_def)

lemma chat_sent:
  assumes "data ''question'' = Some q" "q \<noteq> []" "data ''filepath'' = Some fp" "fp \<noteq> []"
    "data ''columns'' = Some cols" "cols \<noteq> []"
  shows "requests_sent (snd (chat_with_data w s data))
     = requests_sent s @ [code_request w q (metrics_field data) (history_field data) fp cols]"
  unfolding chat_accepted[OF assms] by (simp add: run_generated_code_sent)

text \<open>
  C10. For a chat request that passes the two guards, whatever the session pointer of
  the state holds, the handler sends the model exactly one request; its user prompt is
  the template filled with the \<open>columns\<close> string of the body as it is and with the
  \<open>filepath\<close> string of the body in which every backslash is doubled, so the prompt has
  the line \<open>CSV Columns: \<close> followed by the client's column string and the data-loading
  line \<open>df = pd.read_csv("...")\<close> around the client's path.
\<close>

theorem prompt_names_client_path:
  assumes "data ''question'' = Some q" "q \<noteq> []" "data ''filepath'' = Some fp" "fp \<noteq> []"
    "data ''columns'' = Some cols" "cols \<noteq> []"
  shows \<open>\<exists>rq. requests_sent (snd (chat_with_data w s data)) = requests_sent s @ [rq]
       \<and> user_content rq
           = final_prompt cols (history_field data)
               (metrics_prompt_of w (metrics_field data)) q
               (concat (map (\<lambda>c. if c = CHR 0x5C then [c, c] else [c]) fp))
       \<and> (\<exists>pre post. user_content rq
             = pre @ ''        CSV Columns: '' @ cols @ ''\<newline>'' @ post)
       \<and> (\<exists>pre post. user_content rq
             = pre @ ''        df = pd.read_csv("''
                 @ concat (map (\<lambda>c. if c = CHR 0x5C then [c, c] else [c]) fp)
                 @ ''")\<newline>'' @ post)\<close>
proof -
  let ?rq = "code_request w q (metrics_field data) (history_field data) fp cols"
  have u: "user_content ?rq
      = final_prompt cols (history_field data) (metrics_prompt_of w (metrics_field data)) q
          (concat (map (\<lambda>c. if c = CHR 0x5C then [c, c] else [c]) fp))"
    by (simp add: code_request_def replace_backslash_def backslash_def)
  show ?thesis
    apply (rule exI[where x = ?rq])
    unfolding u
    using chat_sent[OF assms] final_prompt_columns_line final_prompt_load_line
    by simp
qed

theorem prompt_names_client_path_witness:
  \<open>last_uploaded_filepath uploaded_server = Some ''/srv/app/uploads/sales.csv''
   \<and> (\<exists>rq. requests_sent (snd (chat_with_data (demo_world (always ''print(42)'') Hangs)
                  uploaded_server demo_chat)) = [rq]
       \<and> user_content rq
           = final_prompt ''Region, Sales'' ''No prior conversation.'' []
               ''What is the total of Sales?''
               (''C:'' @ [CHR 0x5C, CHR 0x5C] @ ''data'' @ [CHR 0x5C, CHR 0x5C] @ ''sales.csv'')
       \<and> (\<exists>pre post. user_content rq
             = pre @ ''        CSV Columns: Region, Sales\<newline>'' @ post)
       \<and> (\<exists>pre post. user_content rq
             = pre @ ''        df = pd.read_csv("C:''
                 @ [CHR 0x5C, CHR 0x5C] @ ''data'' @ [CHR 0x5C, CHR 0x5C] @ ''sales.csv")\<newline>''
                 @ post))\<close>
proof -
  have m: "metrics_prompt_of w (metrics_field demo_chat) = []"
    "history_field demo_chat = ''No prior conversation.''" for w
    by (simp_all add: metrics_prompt_of_def metrics_field_def history_field_def demo_chat_fields)
  have p: "last_uploaded_filepath uploaded_server = Some ''/srv/app/uploads/sales.csv''"
    "requests_sent uploaded_server = []"
    by (simp_all add: uploaded_server_def)
  show ?thesis
    using prompt_names_client_path[OF demo_chat_fields(1) _ demo_chat_fields(2) _
        demo_chat_fields(3), of "demo_world (always ''print(42)'') Hangs" uploaded_server]
    by (simp add: m p backslash_def)
qed

text \<open>
  C4, as stated, fails in its first half: the handler does not read the session
  pointer. With the pointer at one file, a request that names another path is served
  from the path in its body; and before any upload, with no pointer at all, a request
  that names a path is answered.
\<close>

theorem chat_ignores_session_pointer:
  "last_uploaded_filepath uploaded_server = Some ''/srv/app/uploads/sales.csv''
   \<and> requests_sent (snd (chat_with_data (demo_world (always ''print(42)'')
          (Exits 1 0 ''42\<newline>'' [])) uploaded_server demo_chat))
       = [code_request (demo_world (always ''print(42)'') (Exits 1 0 ''42\<newline>'' []))
            ''What is the total of Sales?'' [] ''No prior conversation.''
            (''C:'' @ [backslash] @ ''data'' @ [backslash] @ ''sales.csv'') ''Region, Sales'']
   \<and> last_uploaded_filepath initial_server = None
   \<and> fst (chat_with_data (demo_world (always ''print(42)'') (Exits 1 0 ''42\<newline>'' []))
          initial_server demo_chat) = (''42'', 200)"
  by (simp add: demo_chat_ran subprocess_run_def strip_examples uploaded_server_def
      initial_server_def metrics_field_def history_field_def demo_chat_fields)

text \<open>
  C4, amended. The chat handler neither reads nor writes the session pointer: its
  response is the same whatever the state holds (the path and the columns come from
  the body of the request), and it leaves \<open>last_uploaded_filepath\<close> and
  \<open>csv_column_names\<close> as they were. So after any sequence of chat requests the two hold
  exactly the values they had before it, those of the most recent upload.
\<close>

theorem chat_frames_session_pointer:
  "fst (chat_with_data w s data) = fst (chat_with_data w s' data)
   \<and> last_uploaded_filepath (snd (chat_with_data w s data)) = last_uploaded_filepath s
   \<and> csv_column_names (snd (chat_with_data w s data)) = csv_column_names s
   \<and> ((\<forall>r \<in> set rs. is_chat r) \<longrightarrow>
        last_uploaded_filepath (serve w s rs) = last_uploaded_filepath s
        \<and> csv_column_names (serve w s rs) = csv_column_names s)"
  using chat_reply_independent[of w s data s'] chat_frame[of w s data] serve_chats_frame[of rs w s]
  by blast

lemma demo_upload_pointer:
  "last_uploaded_filepath (snd (upload_file (demo_world reply c) s demo_files))
     = Some ''/srv/app/uploads/sales.csv''
   \<and> csv_column_names (snd (upload_file (demo_world reply c) s demo_files)) = ''Region, Sales''"
  by (simp add: upload_file_def demo_files_def demo_world_def Let_def sales_df_def)

theorem chat_frames_session_pointer_witness:
  "last_uploaded_filepath
     (serve (demo_world (always ''print(42)'') (Exits 1 0 ''42\<newline>'' []))
        (snd (upload_file (demo_world (always ''print(42)'') (Exits 1 0 ''42\<newline>'' []))
               initial_server demo_files))
        [Chat demo_chat, Chat Map.empty, Chat demo_chat])
     = Some ''/srv/app/uploads/sales.csv''
   \<and> csv_column_names
     (serve (demo_world (always ''print(42)'') (Exits 1 0 ''42\<newline>'' []))
        (snd (upload_file (demo_world (always ''print(42)'') (Exits 1 0 ''42\<newline>'' []))
               initial_server demo_files))
        [Chat demo_chat, Chat Map.empty, Chat demo_chat])
     = ''Region, Sales''"
proof -
  let ?w = "demo_world (always ''print(42)'') (Exits 1 0 ''42\<newline>'' [])"
  have c: "\<forall>r \<in> set [Chat demo_chat, Chat Map.empty, Chat demo_chat]. is_chat r" by simp
  show ?thesis
    using chat_frames_session_pointer[of ?w "snd (upload_file ?w initial_server demo_files)"
        demo_chat initial_server "[Chat demo_chat, Chat Map.empty, Chat demo_chat]"]
      c demo_upload_pointer[of "always ''print(42)''" "Exits 1 0 ''42\<newline>'' []" initial_server]
    by simp
qed

section \<open>Facts about the bracket scan\<close>

lemma find_char_absent: "c \<notin> set s \<Longrightarrow> find_char c s = - 1"
  by (induction s) (auto simp: Let_def)

lemma find_char_present:
  "c \<in> set s \<Longrightarrow>
     \<exists>i. find_char c s = int i \<and> i < length s \<and> s ! i = c \<and> c \<notin> set (take i s)"
proof (induction s)
  case Nil
  then show ?case by simp
next
  case (Cons x xs)
  show ?case
  proof (cases "x = c")
    case True
    then show ?thesis by (intro exI[where x = 0]) simp
  next
    case False
    with Cons obtain i where i: "find_char c xs = int i" "i < length xs" "xs ! i = c"
      "c \<notin> set (take i xs)" by auto
    show ?thesis
      using False i by (intro exI[where x = "Suc i"]) (simp add: Let_def)
  qed
qed

lemma rfind_char_absent: "c \<notin> set s \<Longrightarrow> rfind_char c s = - 1"
  by (induction s) (auto simp: Let_def)

lemma rfind_char_present:
  "c \<in> set s \<Longrightarrow>
     \<exists>j. rfind_char c s = int j \<and> j < length s \<and> s ! j = c \<and> c \<notin> set (drop (Suc j) s)"
proof (induction s)
  case Nil
  then show ?case by simp
next
  case (Cons x xs)
  show ?case
  proof (cases "c \<in> set xs")
    case True
    with Cons obtain j where j: "rfind_char c xs = int j" "j < length xs" "xs ! j = c"
      "c \<notin> set (drop (Suc j) xs)" by auto
    show ?thesis
      using j by (intro exI[where x = "Suc j"]) (simp add: Let_def)
  next
    case False
    then have "rfind_char c xs = - 1" by (rule rfind_char_absent)
    moreover have "x = c" using Cons.prems False by simp
    ultimately show ?thesis using False by (intro exI[where x = 0]) (simp add: Let_def)
  qed
qed

lemma py_slice_nat:
  "i \<le> length s \<Longrightarrow> j \<le> length s \<Longrightarrow> py_slice s (int i) (int j) = drop i (take j s)"
  by (simp add: py_slice_def Let_def min_def)

text \<open>
  The text that \<open>clean_json_text\<close> hands to the parser when both brackets occur: it lies
  between a part without \<open>[\<close> and a part without \<open>]\<close>, and it is either the run from the
  first \<open>[\<close> to the last \<open>]\<close> or, when the last \<open>]\<close> comes before the first \<open>[\<close>, empty.
\<close>

lemma clean_json_text_present:
  assumes "CHR ''['' \<in> set text" "CHR '']'' \<in> set text"
  shows "\<exists>pre payload post.
           clean_json_text msg text = Inr payload
         \<and> payload = py_slice text (find_char CHR ''['' text) (rfind_char CHR '']'' text + 1)
         \<and> text = pre @ payload @ post
         \<and> CHR ''['' \<notin> set pre \<and> CHR '']'' \<notin> set post
         \<and> (payload = [] \<or> (hd payload = CHR ''['' \<and> last payload = CHR '']''))"
proof -
  obtain i where i: "find_char CHR ''['' text = int i" "i < length text" "text ! i = CHR ''[''"
    "CHR ''['' \<notin> set (take i text)"
    using find_char_present[OF assms(1)] by blast
  obtain j where j: "rfind_char CHR '']'' text = int j" "j < length text" "text ! j = CHR '']''"
    "CHR '']'' \<notin> set (drop (Suc j) text)"
    using rfind_char_present[OF assms(2)] by blast
  let ?p = "drop i (take (Suc j) text)"
  have sl: "py_slice text (int i) (int j + 1) = ?p"
    using py_slice_nat[of i "text" "Suc j"] i(2) j(2) by (simp add: add.commute)
  have c: "clean_json_text msg text = Inr ?p"
    using sl by (simp add: clean_json_text_def Let_def i(1) j(1))
  show ?thesis
  proof (cases "i \<le> j")
    case True
    have ij: "i < j" using True i(3) j(3) by (cases "i = j") auto
    have t: "text = take i text @ ?p @ drop (Suc j) text"
      using True by (metis append_take_drop_id drop_take le_SucI take_all_iff take_drop
          append.assoc le_add_diff_inverse take_add)
    have ne: "?p \<noteq> []" using True j(2) by simp
    have h: "hd ?p = CHR ''[''"
      using ne i(3) ij j(2) by (simp add: hd_drop_conv_nth)
    have "?p = drop i (take j text) @ [text ! j]"
      using ij j(2) by (simp add: take_Suc_conv_app_nth)
    then have l: "last ?p = CHR '']''" using j(3) by simp
    show ?thesis
      using c sl t i(4) j(4) h l i(1) j(1) by (metis (no_types, lifting))
  next
    case False
    then have e: "?p = []" by simp
    have t: "text = take i text @ ?p @ drop i text" using e by simp
    have "set (drop i text) \<subseteq> set (drop (Suc j) text)"
      using False by (metis Suc_leI not_le set_drop_subset_set_drop)
    then have "CHR '']'' \<notin> set (drop i text)" using j(4) by blast
    then show ?thesis
      using c sl t i(4) e i(1) j(1) by (metis (no_types, lifting))
  qed
qed

lemma clean_json_text_absent:
  "CHR ''['' \<notin> set text \<or> CHR '']'' \<notin> set text \<Longrightarrow>
     clean_json_text msg text = Inl (ValueError msg)"
  by (auto simp: clean_json_text_def Let_def find_char_absent rfind_char_absent)

lemma clean_json_text_example:
  \<open>clean_json_text msg ''Sure! [{"a":1}] Thanks'' = Inr ''[{"a":1}]''\<close>
  by (simp add: clean_json_text_def py_slice_def Let_def)
end
